theory Spec2Isabelle
  imports Main
begin

section \<open>Data model of \<open>lambda/auth.go\<close>\<close>

text \<open>
  \<open>ApplicationClaim\<close> is the struct of the source: the two identifiers a token can be
  scoped to.
\<close>

record ApplicationClaim =
  NamespaceID :: string
  ApplicationID :: string

text \<open>
  Go's \<open>error\<close> values.  \<open>New text\<close> is a value made by \<open>errors.New\<close> in this package
  (the five package-level variables below).  The other constructors are the values the
  libraries return: the ASN.1/X.509 parser, the JWT parser (\<open>*jwt.ValidationError\<close>) and
  the JSON decoder (\<open>*json.UnmarshalTypeError\<close>, with the JSON value kind and the Go
  type it could not be stored in).  Each carries the library's diagnostic text.
\<close>

datatype error =
    New string
  | StructuralError string
  | ValidationError string
  | UnmarshalTypeError string string

definition errorInvalidClaims :: error where
  "errorInvalidClaims = New ''Invalid Claims''"

definition errorInvalidPublicKey :: error where
  "errorInvalidPublicKey = New ''Invalid public key''"

definition errorEmptyRequestToken :: error where
  "errorEmptyRequestToken = New ''Authentication token was not provided in the request''"

definition errorInvalidApplication :: error where
  "errorInvalidApplication = New ''Application ID was not provided''"

definition errorInvalidNamespace :: error where
  "errorInvalidNamespace = New ''Namespace ID was not provided''"

text \<open>
  A decoded JSON value, as Go holds it in an \<open>interface{}\<close> (\<open>nil\<close> is \<open>JNull\<close>) and as
  \<open>json.Marshal\<close> writes it back.  The members of an object are listed in the order
  \<open>json.Marshal\<close> writes them.  A number keeps its literal text.
\<close>

datatype json =
    JNull
  | JBool bool
  | JNumber string
  | JString string
  | JArray "json list"
  | JObject "(string \<times> json) list"

text \<open>\<open>jwt.MapClaims\<close> is \<open>map[string]interface{}\<close>; indexing a missing key gives \<open>nil\<close>.\<close>

type_synonym MapClaims = "string \<rightharpoonup> json"

definition index :: "MapClaims \<Rightarrow> string \<Rightarrow> json" where
  "index claims key = (case claims key of None \<Rightarrow> JNull | Some v \<Rightarrow> v)"

text \<open>
  The process environment and \<open>os.Getenv\<close>, which gives the empty string for a variable
  that is not set.
\<close>

type_synonym environ = "string \<rightharpoonup> string"

definition os_Getenv :: "environ \<Rightarrow> string \<Rightarrow> string" where
  "os_Getenv env key = (case env key of None \<Rightarrow> [] | Some v \<Rightarrow> v)"

text \<open>
  The request: only its header is read.  \<open>Header.Get\<close> gives the first value stored under
  the key and the empty string when there is none (the map is read up to the
  canonical spelling of header names, which \<open>net/http\<close> applies on both sides).
\<close>

record Request =
  Header :: "string \<rightharpoonup> string list"

definition Header_Get :: "(string \<rightharpoonup> string list) \<Rightarrow> string \<Rightarrow> string" where
  "Header_Get h key = (case h key of None \<Rightarrow> [] | Some [] \<Rightarrow> [] | Some (v # vs) \<Rightarrow> v)"

text \<open>The values exchanged with \<open>encoding/pem\<close>, \<open>crypto/x509\<close> and \<open>jwt-go\<close>.\<close>

record Block =
  Type :: string
  Bytes :: string

record PublicKey =
  N :: int
  E :: int

record Token =
  Raw :: string
  Header_alg :: string

text \<open>
  The libraries the function calls are not part of the package; they are parameters of
  the model:
  \<^item> \<open>pem_Decode\<close>: the first PEM block of the input, if there is one;
  \<^item> \<open>x509_ParsePKCS1PublicKey\<close>: the key (a pointer, possibly \<open>nil\<close>) and the error;
  \<^item> \<open>jwt_ParseWithClaims\<close>: from the token string, the claims map it is given and the
    key function, the claims map as the parser leaves it and the error (the parsed
    token it also returns is discarded by the source);
  \<^item> \<open>equalFold\<close>: the case-insensitive comparison \<open>encoding/json\<close> uses to match an object
    key with a struct field name when no field matches exactly.
\<close>

record lib =
  pem_Decode :: "string \<Rightarrow> Block option"
  x509_ParsePKCS1PublicKey :: "string \<Rightarrow> PublicKey option \<times> error option"
  jwt_ParseWithClaims ::
    "string \<Rightarrow> MapClaims \<Rightarrow> (Token \<Rightarrow> PublicKey \<times> error option) \<Rightarrow> MapClaims \<times> error option"
  equalFold :: "string \<Rightarrow> string \<Rightarrow> bool"

section \<open>\<open>encoding/json\<close> on the types the source uses\<close>

text \<open>
  \<open>json.Marshal\<close> of a value that was itself decoded from JSON writes that value and
  reports no error.
\<close>

definition json_Marshal :: "json \<Rightarrow> json \<times> error option" where
  "json_Marshal v = (v, None)"

fun valueKind :: "json \<Rightarrow> string" where
  "valueKind JNull = ''null''"
| "valueKind (JBool b) = ''bool''"
| "valueKind (JNumber n) = ''number''"
| "valueKind (JString s) = ''string''"
| "valueKind (JArray vs) = ''array''"
| "valueKind (JObject ms) = ''object''"

text \<open>The decoder keeps the first type error it meets and goes on decoding.\<close>

definition saveError :: "error option \<Rightarrow> error option \<Rightarrow> error option" where
  "saveError saved e = (case saved of None \<Rightarrow> e | Some s \<Rightarrow> Some s)"

text \<open>
  Storing a JSON value in a \<open>string\<close> field: a string is stored, \<open>null\<close> leaves the field
  as it is, anything else is a type error.
\<close>

fun storeString :: "json \<Rightarrow> string \<Rightarrow> string \<times> error option" where
  "storeString (JString s) cur = (s, None)"
| "storeString JNull cur = (cur, None)"
| "storeString v cur = (cur, Some (UnmarshalTypeError (valueKind v) ''string''))"

text \<open>
  The field of \<open>ApplicationClaim\<close> an object key stands for: the field whose \<open>json\<close> tag is
  the key, else the first field whose tag matches it without regard to case.
\<close>

datatype field = Field_NamespaceID | Field_ApplicationID

definition fieldFor :: "(string \<Rightarrow> string \<Rightarrow> bool) \<Rightarrow> string \<Rightarrow> field option" where
  "fieldFor eqFold key =
     (if key = ''namespace_id'' then Some Field_NamespaceID
      else if key = ''application_id'' then Some Field_ApplicationID
      else if eqFold ''namespace_id'' key then Some Field_NamespaceID
      else if eqFold ''application_id'' key then Some Field_ApplicationID
      else None)"

fun storeMembers ::
  "(string \<Rightarrow> string \<Rightarrow> bool) \<Rightarrow> (string \<times> json) list \<Rightarrow> ApplicationClaim \<Rightarrow> error option
    \<Rightarrow> ApplicationClaim \<times> error option" where
  "storeMembers eqFold [] c saved = (c, saved)"
| "storeMembers eqFold ((key, v) # ms) c saved =
     (case fieldFor eqFold key of
        None \<Rightarrow> storeMembers eqFold ms c saved
      | Some Field_NamespaceID \<Rightarrow>
          (case storeString v (NamespaceID c) of
             (s, e) \<Rightarrow> storeMembers eqFold ms (c\<lparr>NamespaceID := s\<rparr>) (saveError saved e))
      | Some Field_ApplicationID \<Rightarrow>
          (case storeString v (ApplicationID c) of
             (s, e) \<Rightarrow> storeMembers eqFold ms (c\<lparr>ApplicationID := s\<rparr>) (saveError saved e)))"

text \<open>
  Storing a JSON value in an \<open>ApplicationClaim\<close>: an object fills the fields it names,
  \<open>null\<close> changes nothing, anything else is a type error.
\<close>

fun storeStruct ::
  "(string \<Rightarrow> string \<Rightarrow> bool) \<Rightarrow> json \<Rightarrow> ApplicationClaim \<Rightarrow> error option
    \<Rightarrow> ApplicationClaim \<times> error option" where
  "storeStruct eqFold (JObject ms) c saved = storeMembers eqFold ms c saved"
| "storeStruct eqFold JNull c saved = (c, saved)"
| "storeStruct eqFold v c saved =
     (c, saveError saved (Some (UnmarshalTypeError (valueKind v) ''lambda.ApplicationClaim'')))"

text \<open>The elements of an array, each stored in a fresh (zero) struct.\<close>

fun storeElems ::
  "(string \<Rightarrow> string \<Rightarrow> bool) \<Rightarrow> json list \<Rightarrow> error option
    \<Rightarrow> ApplicationClaim list \<times> error option" where
  "storeElems eqFold [] saved = ([], saved)"
| "storeElems eqFold (v # vs) saved =
     (case storeStruct eqFold v \<lparr>NamespaceID = [], ApplicationID = []\<rparr> saved of
        (c, saved1) \<Rightarrow>
          (case storeElems eqFold vs saved1 of (cs, saved2) \<Rightarrow> (c # cs, saved2)))"

text \<open>
  \<open>json.Unmarshal(data, &parsedClaims)\<close> with \<open>parsedClaims\<close> of type
  \<open>[]ApplicationClaim\<close>: the slice as the call leaves it, and the error.  \<open>null\<close> sets the
  slice to \<open>nil\<close> (length 0); an array is decoded element by element; any other value is
  a type error and leaves the slice as it was.
\<close>

fun json_Unmarshal ::
  "(string \<Rightarrow> string \<Rightarrow> bool) \<Rightarrow> json \<Rightarrow> ApplicationClaim list
    \<Rightarrow> ApplicationClaim list \<times> error option" where
  "json_Unmarshal eqFold JNull cur = ([], None)"
| "json_Unmarshal eqFold (JArray vs) cur = storeElems eqFold vs None"
| "json_Unmarshal eqFold v cur =
     (cur, Some (UnmarshalTypeError (valueKind v) ''[]lambda.ApplicationClaim''))"

section \<open>\<open>authenticate\<close>\<close>

text \<open>
  The calls the function makes outside itself, in the order it makes them.  The trace
  is what makes "this stage was not run" a statement about a result.
\<close>

datatype event =
    Getenv string
  | HeaderGet string
  | PemDecode string
  | ParsePKCS1PublicKey string
  | LogPrint "error option"
  | ParseWithClaims string PublicKey
  | Marshal json
  | Unmarshal json

text \<open>\<open>call ev rest\<close>: the call \<open>ev\<close> is made, then the function goes on as \<open>rest\<close>.\<close>

definition call :: "event \<Rightarrow> error option \<times> event list \<Rightarrow> error option \<times> event list" where
  "call ev rest = (fst rest, ev # snd rest)"

text \<open>
  \<open>authenticate\<close> (lines 44 to 119): the returned \<open>err\<close> (\<open>None\<close> is \<open>nil\<close>, the request is
  accepted) and the trace of calls.  Every \<open>return\<close> of the source is one branch, in
  the order of the source.  The key function handed to the JWT parser is the closure of
  lines 81 to 83: it gives the parsed key and no error, whatever the token.
\<close>

definition authenticate :: "lib \<Rightarrow> environ \<Rightarrow> Request \<Rightarrow> error option \<times> event list" where
  "authenticate L env req =
    call (Getenv ''SCW_PUBLIC'')
    (let isPublicFunction = os_Getenv env ''SCW_PUBLIC'' in
     if isPublicFunction = ''true'' then (None, [])
     else
     call (HeaderGet ''SCW_FUNCTIONS_TOKEN'')
     (let requestToken = Header_Get (Header req) ''SCW_FUNCTIONS_TOKEN'' in
      if requestToken = [] then (Some errorEmptyRequestToken, [])
      else
      call (Getenv ''SCW_PUBLIC_KEY'')
      (let publicKey = os_Getenv env ''SCW_PUBLIC_KEY'' in
       if publicKey = [] then (Some errorInvalidPublicKey, [])
       else
       call (PemDecode publicKey)
       (case pem_Decode L publicKey of
          None \<Rightarrow> (Some errorInvalidPublicKey, [])
        | Some block \<Rightarrow>
          call (ParsePKCS1PublicKey (Bytes block))
          (case x509_ParsePKCS1PublicKey L (Bytes block) of (parsedKey, err) \<Rightarrow>
           if err \<noteq> None \<or> parsedKey = None
           then call (LogPrint err) (Some errorInvalidPublicKey, [])
           else
           call (ParseWithClaims requestToken (the parsedKey))
           (case jwt_ParseWithClaims L requestToken Map.empty (\<lambda>token. (the parsedKey, None)) of
              (claims, err) \<Rightarrow>
            if err \<noteq> None then (err, [])
            else
            call (Marshal (index claims ''application_claim''))
            (case json_Marshal (index claims ''application_claim'') of
               (marshalledClaims, err) \<Rightarrow>
             if err \<noteq> None then (err, [])
             else
             call (Unmarshal marshalledClaims)
             (case json_Unmarshal (equalFold L) marshalledClaims [] of
                (parsedClaims, err) \<Rightarrow>
              if err \<noteq> None then (err, [])
              else if length parsedClaims = 0 then (Some errorInvalidClaims, [])
              else
              let applicationClaims = parsedClaims ! 0 in
              call (Getenv ''SCW_APPLICATION_ID'')
              (let applicationID = os_Getenv env ''SCW_APPLICATION_ID'' in
               call (Getenv ''SCW_NAMESPACE_ID'')
               (let namespaceID = os_Getenv env ''SCW_NAMESPACE_ID'' in
                if applicationID = [] then (Some errorInvalidApplication, [])
                else if namespaceID = [] then (Some errorInvalidNamespace, [])
                else if NamespaceID applicationClaims \<noteq> namespaceID
                        \<and> ApplicationID applicationClaims \<noteq> applicationID
                then (Some errorInvalidClaims, [])
                else (None, [])))))))))))"

section \<open>A sample deployment\<close>

text \<open>
  Concrete inputs on which the theorems below are evaluated: a configured key, the
  answers of the libraries on the strings that occur, an environment (the identity of
  the specification's example, \<open>app-1\<close> in \<open>ns-1\<close>) and requests carrying one token each.
\<close>

definition sampleKey :: PublicKey where
  "sampleKey = \<lparr>N = 3233, E = 17\<rparr>"

definition samplePEM :: string where
  "samplePEM = ''-----BEGIN RSA PUBLIC KEY----- MAcCAgyhAgER -----END RSA PUBLIC KEY-----''"

definition certPEM :: string where
  "certPEM = ''-----BEGIN CERTIFICATE----- MIIBszCCAVmg -----END CERTIFICATE-----''"

definition claimsOf :: "json \<Rightarrow> MapClaims" where
  "claimsOf v = [''exp'' \<mapsto> JNumber ''4102444800'', ''application_claim'' \<mapsto> v]"

definition scope :: "string \<Rightarrow> string \<Rightarrow> json" where
  "scope ns app = JObject [(''application_id'', JString app), (''namespace_id'', JString ns)]"

definition sampleTokens :: "string \<Rightarrow> MapClaims \<times> error option" where
  "sampleTokens tok =
     (if tok = ''token-ns1-app9'' then (claimsOf (JArray [scope ''ns-1'' ''app-9'']), None)
      else if tok = ''token-ns2-app1'' then (claimsOf (JArray [scope ''ns-2'' ''app-1'']), None)
      else if tok = ''token-ns2-app9'' then (claimsOf (JArray [scope ''ns-2'' ''app-9'']), None)
      else if tok = ''token-no-scope'' then (claimsOf (JArray []), None)
      else if tok = ''token-no-field'' then ([''exp'' \<mapsto> JNumber ''4102444800''], None)
      else if tok = ''token-string-scope'' then (claimsOf (JString ''ns-1''), None)
      else if tok = ''token-number-id'' then
        (claimsOf (JArray [JObject [(''namespace_id'', JNumber ''1'')]]), None)
      else if tok = ''token-expired'' then
        (claimsOf (JArray [scope ''ns-1'' ''app-1'']), Some (ValidationError ''Token is expired''))
      else if tok = ''token-other-key'' then
        (Map.empty, Some (ValidationError ''crypto/rsa: verification error''))
      else (Map.empty, Some (ValidationError ''token contains an invalid number of segments'')))"

definition toLowerASCII :: "char \<Rightarrow> char" where
  "toLowerASCII c =
     (let n = (of_char c :: nat) in if 65 \<le> n \<and> n \<le> 90 then char_of (n + 32) else c)"

definition sampleLib :: lib where
  "sampleLib =
     \<lparr>pem_Decode = (\<lambda>s.
        if s = samplePEM then Some \<lparr>Type = ''RSA PUBLIC KEY'', Bytes = ''der-rsa-key''\<rparr>
        else if s = certPEM then Some \<lparr>Type = ''CERTIFICATE'', Bytes = ''der-certificate''\<rparr>
        else None),
      x509_ParsePKCS1PublicKey = (\<lambda>der.
        if der = ''der-rsa-key'' then (Some sampleKey, None)
        else (None, Some (StructuralError ''asn1: structure error: tags do not match''))),
      jwt_ParseWithClaims = (\<lambda>tok claims keyFunc.
        case keyFunc \<lparr>Raw = tok, Header_alg = ''RS256''\<rparr> of
          (key, Some e) \<Rightarrow> (claims, Some (ValidationError ''key function failed''))
        | (key, None) \<Rightarrow>
            if key = sampleKey then sampleTokens tok
            else (claims, Some (ValidationError ''crypto/rsa: verification error''))),
      equalFold = (\<lambda>a b. map toLowerASCII a = map toLowerASCII b)\<rparr>"

definition sampleEnv :: environ where
  "sampleEnv =
     [''SCW_PUBLIC_KEY'' \<mapsto> samplePEM,
      ''SCW_APPLICATION_ID'' \<mapsto> ''app-1'',
      ''SCW_NAMESPACE_ID'' \<mapsto> ''ns-1'']"

definition requestWith :: "string \<Rightarrow> Request" where
  "requestWith tok = \<lparr>Header = [''SCW_FUNCTIONS_TOKEN'' \<mapsto> [tok]]\<rparr>"

definition requestWithout :: Request where
  "requestWithout = \<lparr>Header = [''Content-Type'' \<mapsto> [''application/json'']]\<rparr>"

section \<open>Facts about the trace and the decoder\<close>

text \<open>A call adds one event in front of what follows and leaves the verdict alone.\<close>

lemma fst_call: "fst (call ev rest) = fst rest"
  by (simp add: call_def)

lemma snd_call: "snd (call ev rest) = ev # snd rest"
  by (simp add: call_def)

lemma call_pair: "call ev (e, t) = (e, ev # t)"
  by (simp add: call_def)

text \<open>
  Every error the decoder reports is a type error, and the decoder gives an empty slice
  without an error exactly on \<open>null\<close> and on the empty array.
\<close>

lemma saveError_Some: "saveError saved e = Some x \<Longrightarrow> saved = Some x \<or> e = Some x"
  by (simp add: saveError_def split: option.splits)

lemma storeString_error:
  "storeString v cur = (s, Some e) \<Longrightarrow> e = UnmarshalTypeError (valueKind v) ''string''"
  by (cases v) auto

lemma storeMembers_error:
  "storeMembers eqFold ms c saved = (c', Some e)
    \<Longrightarrow> saved = Some e \<or> (\<exists>k t. e = UnmarshalTypeError k t)"
proof (induction ms arbitrary: c saved)
  case Nil
  then show ?case by simp
next
  case (Cons m ms)
  obtain key v where m: "m = (key, v)" by (cases m)
  show ?case
  proof (cases "fieldFor eqFold key")
    case None
    with Cons m show ?thesis by simp
  next
    case (Some f)
    show ?thesis
    proof (cases f)
      case Field_NamespaceID
      obtain s e1 where st: "storeString v (NamespaceID c) = (s, e1)"
        by (cases "storeString v (NamespaceID c)")
      with Cons.prems m Some Field_NamespaceID
      have "storeMembers eqFold ms (c\<lparr>NamespaceID := s\<rparr>) (saveError saved e1) = (c', Some e)"
        by simp
      from Cons.IH [OF this] show ?thesis
        using st by (auto dest!: saveError_Some storeString_error)
    next
      case Field_ApplicationID
      obtain s e1 where st: "storeString v (ApplicationID c) = (s, e1)"
        by (cases "storeString v (ApplicationID c)")
      with Cons.prems m Some Field_ApplicationID
      have "storeMembers eqFold ms (c\<lparr>ApplicationID := s\<rparr>) (saveError saved e1) = (c', Some e)"
        by simp
      from Cons.IH [OF this] show ?thesis
        using st by (auto dest!: saveError_Some storeString_error)
    qed
  qed
qed

lemma storeStruct_error:
  "storeStruct eqFold v c saved = (c', Some e)
    \<Longrightarrow> saved = Some e \<or> (\<exists>k t. e = UnmarshalTypeError k t)"
  by (cases v) (auto dest: storeMembers_error saveError_Some)

lemma storeElems_error:
  "storeElems eqFold vs saved = (cs, Some e)
    \<Longrightarrow> saved = Some e \<or> (\<exists>k t. e = UnmarshalTypeError k t)"
proof (induction vs arbitrary: saved cs)
  case Nil
  then show ?case by simp
next
  case (Cons v vs)
  obtain c s1 where a: "storeStruct eqFold v \<lparr>NamespaceID = [], ApplicationID = []\<rparr> saved = (c, s1)"
    by (cases "storeStruct eqFold v \<lparr>NamespaceID = [], ApplicationID = []\<rparr> saved")
  obtain cs' s2 where b: "storeElems eqFold vs s1 = (cs', s2)"
    by (cases "storeElems eqFold vs s1")
  from Cons.prems a b have s2: "s2 = Some e" by simp
  from Cons.IH [OF b [unfolded s2]] show ?case
    using a storeStruct_error [of eqFold v _ saved c e] by auto
qed

lemma json_Unmarshal_error:
  "json_Unmarshal eqFold v cur = (cs, Some e) \<Longrightarrow> \<exists>k t. e = UnmarshalTypeError k t"
  by (cases v) (auto dest: storeElems_error)

lemma json_Unmarshal_empty:
  "json_Unmarshal eqFold v [] = ([], None) \<longleftrightarrow> v = JNull \<or> v = JArray []"
proof (cases v)
  case (JArray vs)
  show ?thesis
  proof (cases vs)
    case Nil
    with JArray show ?thesis by simp
  next
    case (Cons a as)
    with JArray show ?thesis
      by (auto split: prod.splits)
  qed
qed auto

text \<open>A header that is not there reads as the empty string.\<close>

lemma Header_Get_absent: "h key = None \<Longrightarrow> Header_Get h key = []"
  by (simp add: Header_Get_def)

text \<open>
  The environment is read through four variables only, and \<open>SCW_PUBLIC\<close> only through
  the test for \<open>true\<close>.
\<close>

lemma authenticate_env_cong:
  assumes "(os_Getenv e1 ''SCW_PUBLIC'' = ''true'') = (os_Getenv e2 ''SCW_PUBLIC'' = ''true'')"
    and "os_Getenv e1 ''SCW_PUBLIC_KEY'' = os_Getenv e2 ''SCW_PUBLIC_KEY''"
    and "os_Getenv e1 ''SCW_APPLICATION_ID'' = os_Getenv e2 ''SCW_APPLICATION_ID''"
    and "os_Getenv e1 ''SCW_NAMESPACE_ID'' = os_Getenv e2 ''SCW_NAMESPACE_ID''"
  shows "authenticate L e1 req = authenticate L e2 req"
  unfolding authenticate_def Let_def assms ..

text \<open>Past the public test the first thing done is the reading of the token header.\<close>

lemma authenticate_reads_token:
  assumes "os_Getenv env ''SCW_PUBLIC'' \<noteq> ''true''"
  shows "take 2 (snd (authenticate L env req))
         = [Getenv ''SCW_PUBLIC'', HeaderGet ''SCW_FUNCTIONS_TOKEN'']"
  using assms by (simp add: authenticate_def snd_call)

text \<open>
  What it takes for a request to be accepted when the function is not public: a token in
  the header, a key that loads, a token that the parser passes with that key, claims
  that decode to at least one entry, both identifiers of the runtime, and a first entry
  that names the runtime's namespace or its application.
\<close>

lemma authenticate_accepts_iff:
  assumes "os_Getenv env ''SCW_PUBLIC'' \<noteq> ''true''"
  shows "fst (authenticate L env req) = None \<longleftrightarrow>
      Header_Get (Header req) ''SCW_FUNCTIONS_TOKEN'' \<noteq> []
      \<and> os_Getenv env ''SCW_PUBLIC_KEY'' \<noteq> []
      \<and> (\<exists>block key claims claim others.
            pem_Decode L (os_Getenv env ''SCW_PUBLIC_KEY'') = Some block
          \<and> x509_ParsePKCS1PublicKey L (Bytes block) = (Some key, None)
          \<and> jwt_ParseWithClaims L (Header_Get (Header req) ''SCW_FUNCTIONS_TOKEN'') Map.empty
                (\<lambda>token. (key, None)) = (claims, None)
          \<and> json_Unmarshal (equalFold L)
                (fst (json_Marshal (index claims ''application_claim''))) []
              = (claim # others, None)
          \<and> os_Getenv env ''SCW_APPLICATION_ID'' \<noteq> []
          \<and> os_Getenv env ''SCW_NAMESPACE_ID'' \<noteq> []
          \<and> (NamespaceID claim = os_Getenv env ''SCW_NAMESPACE_ID''
               \<or> ApplicationID claim = os_Getenv env ''SCW_APPLICATION_ID''))"
    (is "?accepted \<longleftrightarrow> ?checked")
proof
  assume ?checked
  with assms show ?accepted
    by (auto simp: authenticate_def fst_call json_Marshal_def)
next
  assume acc: ?accepted
  let ?tok = "Header_Get (Header req) ''SCW_FUNCTIONS_TOKEN''"
  let ?pem = "os_Getenv env ''SCW_PUBLIC_KEY''"
  from acc assms have tok: "?tok \<noteq> []"
    by (auto simp: authenticate_def fst_call)
  from acc assms tok have pem: "?pem \<noteq> []"
    by (auto simp: authenticate_def fst_call)
  from acc assms tok pem obtain block where block: "pem_Decode L ?pem = Some block"
    by (cases "pem_Decode L ?pem") (auto simp: authenticate_def fst_call)
  obtain parsedKey err where x: "x509_ParsePKCS1PublicKey L (Bytes block) = (parsedKey, err)"
    by (cases "x509_ParsePKCS1PublicKey L (Bytes block)")
  from acc assms tok pem block x have "err = None \<and> parsedKey \<noteq> None"
    by (auto simp: authenticate_def fst_call Let_def split: if_splits)
  then obtain key where key: "x509_ParsePKCS1PublicKey L (Bytes block) = (Some key, None)"
    using x by auto
  obtain claims jerr where j: "jwt_ParseWithClaims L ?tok Map.empty (\<lambda>token. (key, None)) = (claims, jerr)"
    by (cases "jwt_ParseWithClaims L ?tok Map.empty (\<lambda>token. (key, None))")
  from acc assms tok pem block key j have jerr: "jerr = None"
    by (auto simp: authenticate_def fst_call Let_def split: if_splits)
  obtain cs derr where d: "json_Unmarshal (equalFold L)
      (fst (json_Marshal (index claims ''application_claim''))) [] = (cs, derr)"
    by (cases "json_Unmarshal (equalFold L) (fst (json_Marshal (index claims ''application_claim''))) []")
  from acc assms tok pem block key j jerr d have derr: "derr = None"
    by (auto simp: authenticate_def fst_call Let_def json_Marshal_def split: if_splits)
  from acc assms tok pem block key j jerr d derr obtain claim others where cs: "cs = claim # others"
    by (cases cs) (auto simp: authenticate_def fst_call Let_def json_Marshal_def errorInvalidClaims_def)
  from acc assms tok pem block key j jerr d derr cs
  have "os_Getenv env ''SCW_APPLICATION_ID'' \<noteq> []
      \<and> os_Getenv env ''SCW_NAMESPACE_ID'' \<noteq> []
      \<and> (NamespaceID claim = os_Getenv env ''SCW_NAMESPACE_ID''
           \<or> ApplicationID claim = os_Getenv env ''SCW_APPLICATION_ID'')"
    by (auto simp: authenticate_def fst_call Let_def json_Marshal_def split: if_splits)
  with tok pem block key j jerr d derr cs show ?checked
    by blast
qed

text \<open>The sample deployment, stage by stage.\<close>

lemma sample_not_public: "os_Getenv sampleEnv ''SCW_PUBLIC'' \<noteq> ''true''"
  by (simp add: os_Getenv_def sampleEnv_def)

lemma sample_token: "Header_Get (Header (requestWith tok)) ''SCW_FUNCTIONS_TOKEN'' = tok"
  by (simp add: Header_Get_def requestWith_def)

lemma sample_public_key: "os_Getenv sampleEnv ''SCW_PUBLIC_KEY'' = samplePEM"
  by (simp add: os_Getenv_def sampleEnv_def)

lemma samplePEM_nonempty: "samplePEM \<noteq> []"
  by (simp add: samplePEM_def)

lemma sample_block:
  "pem_Decode sampleLib samplePEM = Some \<lparr>Type = ''RSA PUBLIC KEY'', Bytes = ''der-rsa-key''\<rparr>"
  by (simp add: sampleLib_def)

lemma sample_parsed_key:
  "x509_ParsePKCS1PublicKey sampleLib ''der-rsa-key'' = (Some sampleKey, None)"
  by (simp add: sampleLib_def)

lemma sample_parse:
  "jwt_ParseWithClaims sampleLib tok Map.empty (\<lambda>token. (sampleKey, None)) = sampleTokens tok"
  by (simp add: sampleLib_def)

lemma sample_application: "os_Getenv sampleEnv ''SCW_APPLICATION_ID'' = ''app-1''"
  by (simp add: os_Getenv_def sampleEnv_def)

lemma sample_namespace: "os_Getenv sampleEnv ''SCW_NAMESPACE_ID'' = ''ns-1''"
  by (simp add: os_Getenv_def sampleEnv_def)

lemma saveError_None: "saveError saved None = saved"
  by (cases saved) (simp_all add: saveError_def)

lemma sample_store_scope:
  "storeStruct eqFold (scope ns app) c saved = (c\<lparr>ApplicationID := app, NamespaceID := ns\<rparr>, saved)"
  by (simp add: scope_def fieldFor_def saveError_None)

lemma sample_decode_scope:
  "json_Unmarshal eqFold (JArray [scope ns app]) []
     = ([\<lparr>NamespaceID = ns, ApplicationID = app\<rparr>], None)"
  by (simp add: sample_store_scope)

lemma sample_x509_block:
  "x509_ParsePKCS1PublicKey sampleLib
      (Bytes \<lparr>Type = ''RSA PUBLIC KEY'', Bytes = ''der-rsa-key''\<rparr>) = (Some sampleKey, None)"
  by (simp add: sample_parsed_key)

lemma sample_parse_scope:
  "jwt_ParseWithClaims sampleLib ''token-ns1-app9'' Map.empty (\<lambda>token. (sampleKey, None))
     = (claimsOf (JArray [scope ''ns-1'' ''app-9'']), None)"
  "jwt_ParseWithClaims sampleLib ''token-ns2-app1'' Map.empty (\<lambda>token. (sampleKey, None))
     = (claimsOf (JArray [scope ''ns-2'' ''app-1'']), None)"
  "jwt_ParseWithClaims sampleLib ''token-ns2-app9'' Map.empty (\<lambda>token. (sampleKey, None))
     = (claimsOf (JArray [scope ''ns-2'' ''app-9'']), None)"
  by (simp_all add: sample_parse sampleTokens_def)

lemma sample_decode_claims:
  "json_Unmarshal eqFold (fst (json_Marshal (index (claimsOf (JArray [scope ns app]))
       ''application_claim''))) []
     = ([\<lparr>NamespaceID = ns, ApplicationID = app\<rparr>], None)"
  by (simp add: claimsOf_def index_def json_Marshal_def sample_store_scope)

section \<open>The public bypass\<close>

text \<open>
  C2.  When the environment marks the function public (\<open>SCW_PUBLIC\<close> is \<open>true\<close>),
  \<open>authenticate\<close> accepts the request, and the only call it makes is the lookup of
  \<open>SCW_PUBLIC\<close>: it reads no header, loads no key and parses no token, so the verdict
  is the same whatever the request carries.
\<close>

theorem public_function_accepted:
  assumes "os_Getenv env ''SCW_PUBLIC'' = ''true''"
  shows "authenticate L env req = (None, [Getenv ''SCW_PUBLIC''])"
  using assms by (simp add: authenticate_def call_def)

theorem public_function_accepted_witness:
  "os_Getenv (sampleEnv(''SCW_PUBLIC'' \<mapsto> ''true'')) ''SCW_PUBLIC'' = ''true''
   \<and> authenticate sampleLib (sampleEnv(''SCW_PUBLIC'' \<mapsto> ''true'')) (requestWith ''token-expired'')
       = (None, [Getenv ''SCW_PUBLIC''])
   \<and> authenticate sampleLib (sampleEnv(''SCW_PUBLIC'' \<mapsto> ''true'')) requestWithout
       = (None, [Getenv ''SCW_PUBLIC''])"
proof -
  have public: "os_Getenv (sampleEnv(''SCW_PUBLIC'' \<mapsto> ''true'')) ''SCW_PUBLIC'' = ''true''"
    by (simp add: os_Getenv_def)
  show ?thesis
    using public public_function_accepted [OF public] by simp
qed

text \<open>
  C10.  The bypass is taken for the value \<open>true\<close> only.  With any other value of
  \<open>SCW_PUBLIC\<close> (\<open>TRUE\<close>, \<open>1\<close>, empty, not set, ...) \<open>authenticate\<close> gives the verdict and
  makes the calls it gives and makes when the variable is not set, or is \<open>false\<close>; it
  goes on to read the token header; and it accepts the request only on the full check
  of a private function: exactly when a token is present, the key loads, the parser
  passes the token with that key, the claims decode to a first entry, both runtime
  identifiers are set and the entry names the runtime's namespace or application.
\<close>

theorem public_flag_exact:
  assumes "os_Getenv env ''SCW_PUBLIC'' \<noteq> ''true''"
  shows "authenticate L env req = authenticate L (env(''SCW_PUBLIC'' := None)) req
     \<and> authenticate L env req = authenticate L (env(''SCW_PUBLIC'' \<mapsto> ''false'')) req
     \<and> take 2 (snd (authenticate L env req))
           = [Getenv ''SCW_PUBLIC'', HeaderGet ''SCW_FUNCTIONS_TOKEN'']
     \<and> (fst (authenticate L env req) = None \<longleftrightarrow>
          Header_Get (Header req) ''SCW_FUNCTIONS_TOKEN'' \<noteq> []
          \<and> os_Getenv env ''SCW_PUBLIC_KEY'' \<noteq> []
          \<and> (\<exists>block key claims claim others.
                pem_Decode L (os_Getenv env ''SCW_PUBLIC_KEY'') = Some block
              \<and> x509_ParsePKCS1PublicKey L (Bytes block) = (Some key, None)
              \<and> jwt_ParseWithClaims L (Header_Get (Header req) ''SCW_FUNCTIONS_TOKEN'') Map.empty
                    (\<lambda>token. (key, None)) = (claims, None)
              \<and> json_Unmarshal (equalFold L)
                    (fst (json_Marshal (index claims ''application_claim''))) []
                  = (claim # others, None)
              \<and> os_Getenv env ''SCW_APPLICATION_ID'' \<noteq> []
              \<and> os_Getenv env ''SCW_NAMESPACE_ID'' \<noteq> []
              \<and> (NamespaceID claim = os_Getenv env ''SCW_NAMESPACE_ID''
                   \<or> ApplicationID claim = os_Getenv env ''SCW_APPLICATION_ID'')))"
proof (intro conjI)
  show "authenticate L env req = authenticate L (env(''SCW_PUBLIC'' := None)) req"
    using assms by (intro authenticate_env_cong) (simp_all add: os_Getenv_def)
  show "authenticate L env req = authenticate L (env(''SCW_PUBLIC'' \<mapsto> ''false'')) req"
    using assms by (intro authenticate_env_cong) (simp_all add: os_Getenv_def)
  show "take 2 (snd (authenticate L env req))
        = [Getenv ''SCW_PUBLIC'', HeaderGet ''SCW_FUNCTIONS_TOKEN'']"
    using assms by (rule authenticate_reads_token)
qed (rule authenticate_accepts_iff [OF assms])

theorem public_flag_exact_witness:
  "fst (authenticate sampleLib (sampleEnv(''SCW_PUBLIC'' \<mapsto> ''TRUE'')) (requestWith ''not-a-token''))
     \<noteq> None
   \<and> fst (authenticate sampleLib (sampleEnv(''SCW_PUBLIC'' \<mapsto> ''TRUE''))
        (requestWith ''token-ns1-app9'')) = None
   \<and> authenticate sampleLib (sampleEnv(''SCW_PUBLIC'' \<mapsto> ''1'')) (requestWith ''not-a-token'')
     = authenticate sampleLib (sampleEnv(''SCW_PUBLIC'' := None)) (requestWith ''not-a-token'')
   \<and> take 2 (snd (authenticate sampleLib (sampleEnv(''SCW_PUBLIC'' \<mapsto> ''TRUE''))
        (requestWith ''not-a-token'')))
     = [Getenv ''SCW_PUBLIC'', HeaderGet ''SCW_FUNCTIONS_TOKEN'']"
proof -
  let ?upper = "sampleEnv(''SCW_PUBLIC'' \<mapsto> ''TRUE'')"
  let ?one = "sampleEnv(''SCW_PUBLIC'' \<mapsto> ''1'')"
  have upper: "os_Getenv ?upper ''SCW_PUBLIC'' \<noteq> ''true''"
    and one: "os_Getenv ?one ''SCW_PUBLIC'' \<noteq> ''true''"
    by (simp_all add: os_Getenv_def)
  have env: "os_Getenv ?upper ''SCW_PUBLIC_KEY'' = samplePEM"
    "os_Getenv ?upper ''SCW_APPLICATION_ID'' = ''app-1''"
    "os_Getenv ?upper ''SCW_NAMESPACE_ID'' = ''ns-1''"
    by (simp_all add: os_Getenv_def sampleEnv_def)
  note bad = public_flag_exact [OF upper, of sampleLib "requestWith ''not-a-token''"]
  note good = public_flag_exact [OF upper, of sampleLib "requestWith ''token-ns1-app9''"]
  note same = public_flag_exact [OF one, of sampleLib "requestWith ''not-a-token''"]
  have refused: "fst (authenticate sampleLib ?upper (requestWith ''not-a-token'')) \<noteq> None"
    using bad [THEN conjunct2, THEN conjunct2, THEN conjunct2]
    by (simp add: sample_token env sample_block sample_parsed_key sample_parse sampleTokens_def)
  have accepted: "fst (authenticate sampleLib ?upper (requestWith ''token-ns1-app9'')) = None"
    using good [THEN conjunct2, THEN conjunct2, THEN conjunct2]
    by (simp add: sample_token env samplePEM_nonempty sample_block sample_parsed_key
        sample_parse_scope sample_decode_claims)
  have unset: "authenticate sampleLib ?one (requestWith ''not-a-token'')
      = authenticate sampleLib (sampleEnv(''SCW_PUBLIC'' := None)) (requestWith ''not-a-token'')"
    using same [THEN conjunct1] by simp
  have reads: "take 2 (snd (authenticate sampleLib ?upper (requestWith ''not-a-token'')))
      = [Getenv ''SCW_PUBLIC'', HeaderGet ''SCW_FUNCTIONS_TOKEN'']"
    using bad by (rule conjunct1 [OF conjunct2 [OF conjunct2]])
  from refused accepted unset reads show ?thesis by (intro conjI)
qed

section \<open>Missing token\<close>

text \<open>
  C9.  For a function that is not public, a request whose \<open>SCW_FUNCTIONS_TOKEN\<close> header is
  absent or empty is refused with \<open>errorEmptyRequestToken\<close>, and the calls made are the
  lookup of \<open>SCW_PUBLIC\<close> and the reading of the header, nothing else: the key is not
  looked up, decoded or parsed and the token parser is not called.
\<close>

theorem no_token_rejected:
  assumes "os_Getenv env ''SCW_PUBLIC'' \<noteq> ''true''"
    and "Header req ''SCW_FUNCTIONS_TOKEN'' = None
         \<or> Header_Get (Header req) ''SCW_FUNCTIONS_TOKEN'' = []"
  shows "authenticate L env req
         = (Some errorEmptyRequestToken, [Getenv ''SCW_PUBLIC'', HeaderGet ''SCW_FUNCTIONS_TOKEN''])"
proof -
  from assms(2) have "Header_Get (Header req) ''SCW_FUNCTIONS_TOKEN'' = []"
    by (auto simp: Header_Get_absent)
  with assms(1) show ?thesis
    by (simp add: authenticate_def call_def)
qed

theorem no_token_rejected_witness:
  "authenticate sampleLib sampleEnv requestWithout
     = (Some errorEmptyRequestToken, [Getenv ''SCW_PUBLIC'', HeaderGet ''SCW_FUNCTIONS_TOKEN''])
   \<and> authenticate sampleLib sampleEnv (requestWith [])
     = (Some errorEmptyRequestToken, [Getenv ''SCW_PUBLIC'', HeaderGet ''SCW_FUNCTIONS_TOKEN''])"
proof -
  have absent: "Header requestWithout ''SCW_FUNCTIONS_TOKEN'' = None
      \<or> Header_Get (Header requestWithout) ''SCW_FUNCTIONS_TOKEN'' = []"
    by (simp add: requestWithout_def)
  have empty: "Header (requestWith []) ''SCW_FUNCTIONS_TOKEN'' = None
      \<or> Header_Get (Header (requestWith [])) ''SCW_FUNCTIONS_TOKEN'' = []"
    by (simp add: sample_token)
  show ?thesis
    using no_token_rejected [OF sample_not_public absent]
      no_token_rejected [OF sample_not_public empty]
    by simp
qed

section \<open>Loading the key\<close>

text \<open>
  C6.  Once a token is present, each failure to load the key (\<open>SCW_PUBLIC_KEY\<close> empty or
  not set, no PEM block in it, or a block that \<open>x509.ParsePKCS1PublicKey\<close> rejects or
  gives no key for) ends in the verdict \<open>errorInvalidPublicKey\<close>, a fixed value that
  holds nothing of the parser's own error.
\<close>

theorem key_loading_failure:
  assumes "os_Getenv env ''SCW_PUBLIC'' \<noteq> ''true''"
    and "Header_Get (Header req) ''SCW_FUNCTIONS_TOKEN'' \<noteq> []"
    and "os_Getenv env ''SCW_PUBLIC_KEY'' = []
         \<or> pem_Decode L (os_Getenv env ''SCW_PUBLIC_KEY'') = None
         \<or> (\<exists>block. pem_Decode L (os_Getenv env ''SCW_PUBLIC_KEY'') = Some block
               \<and> (snd (x509_ParsePKCS1PublicKey L (Bytes block)) \<noteq> None
                    \<or> fst (x509_ParsePKCS1PublicKey L (Bytes block)) = None))"
  shows "fst (authenticate L env req) = Some errorInvalidPublicKey"
proof -
  from assms(3) consider
      (unset) "os_Getenv env ''SCW_PUBLIC_KEY'' = []"
    | (no_block) "os_Getenv env ''SCW_PUBLIC_KEY'' \<noteq> []"
        "pem_Decode L (os_Getenv env ''SCW_PUBLIC_KEY'') = None"
    | (no_key) block parsedKey err where "os_Getenv env ''SCW_PUBLIC_KEY'' \<noteq> []"
        "pem_Decode L (os_Getenv env ''SCW_PUBLIC_KEY'') = Some block"
        "x509_ParsePKCS1PublicKey L (Bytes block) = (parsedKey, err)"
        "err \<noteq> None \<or> parsedKey = None"
    by (cases "os_Getenv env ''SCW_PUBLIC_KEY'' = []") (auto simp: prod_eq_iff)
  then show ?thesis
  proof cases
    case unset
    with assms(1,2) show ?thesis
      by (simp add: authenticate_def fst_call)
  next
    case no_block
    with assms(1,2) show ?thesis
      by (simp add: authenticate_def fst_call)
  next
    case no_key
    with assms(1,2) show ?thesis
      by (simp add: authenticate_def fst_call)
  qed
qed

theorem key_loading_failure_witness:
  "fst (authenticate sampleLib (sampleEnv(''SCW_PUBLIC_KEY'' := None)) (requestWith ''token-ns1-app9''))
     = Some errorInvalidPublicKey
   \<and> fst (authenticate sampleLib (sampleEnv(''SCW_PUBLIC_KEY'' \<mapsto> ''not a key''))
            (requestWith ''token-ns1-app9''))
     = Some errorInvalidPublicKey
   \<and> fst (authenticate sampleLib (sampleEnv(''SCW_PUBLIC_KEY'' \<mapsto> certPEM))
            (requestWith ''token-ns1-app9''))
     = Some errorInvalidPublicKey"
proof -
  have tok: "Header_Get (Header (requestWith ''token-ns1-app9'')) ''SCW_FUNCTIONS_TOKEN'' \<noteq> []"
    by (simp add: sample_token)
  have p1: "os_Getenv (sampleEnv(''SCW_PUBLIC_KEY'' := None)) ''SCW_PUBLIC'' \<noteq> ''true''"
    and p2: "os_Getenv (sampleEnv(''SCW_PUBLIC_KEY'' \<mapsto> ''not a key'')) ''SCW_PUBLIC'' \<noteq> ''true''"
    and p3: "os_Getenv (sampleEnv(''SCW_PUBLIC_KEY'' \<mapsto> certPEM)) ''SCW_PUBLIC'' \<noteq> ''true''"
    by (simp_all add: os_Getenv_def sampleEnv_def)
  have k1: "os_Getenv (sampleEnv(''SCW_PUBLIC_KEY'' := None)) ''SCW_PUBLIC_KEY'' = []"
    by (simp add: os_Getenv_def)
  have k2: "pem_Decode sampleLib (os_Getenv (sampleEnv(''SCW_PUBLIC_KEY'' \<mapsto> ''not a key''))
      ''SCW_PUBLIC_KEY'') = None"
    by (simp add: os_Getenv_def sampleLib_def samplePEM_def certPEM_def)
  have k3: "\<exists>block. pem_Decode sampleLib (os_Getenv (sampleEnv(''SCW_PUBLIC_KEY'' \<mapsto> certPEM))
        ''SCW_PUBLIC_KEY'') = Some block
      \<and> (snd (x509_ParsePKCS1PublicKey sampleLib (Bytes block)) \<noteq> None
           \<or> fst (x509_ParsePKCS1PublicKey sampleLib (Bytes block)) = None)"
    by (simp add: os_Getenv_def sampleLib_def samplePEM_def certPEM_def)
  show ?thesis
    using key_loading_failure [OF p1 tok disjI1, OF k1]
      key_loading_failure [OF p2 tok disjI2, OF disjI1, OF k2]
      key_loading_failure [OF p3 tok disjI2, OF disjI2, OF k3]
    by simp
qed

section \<open>Verifying the token\<close>

text \<open>
  C4 (as the code has it).  When the key has loaded and \<open>jwt.ParseWithClaims\<close> reports an
  error (malformed token, bad signature, expired, not yet valid), \<open>authenticate\<close> returns
  that very error value, as the library made it, and stops: the last call of the trace
  is the parser's, so no claim is extracted, no identity read and nothing matched.
\<close>

theorem token_failure_returned:
  assumes "os_Getenv env ''SCW_PUBLIC'' \<noteq> ''true''"
    and "Header_Get (Header req) ''SCW_FUNCTIONS_TOKEN'' = tok" and "tok \<noteq> []"
    and "os_Getenv env ''SCW_PUBLIC_KEY'' = pem" and "pem \<noteq> []"
    and "pem_Decode L pem = Some block"
    and "x509_ParsePKCS1PublicKey L (Bytes block) = (Some key, None)"
    and "jwt_ParseWithClaims L tok Map.empty (\<lambda>token. (key, None)) = (claims, Some e)"
  shows "authenticate L env req =
     (Some e,
      [Getenv ''SCW_PUBLIC'', HeaderGet ''SCW_FUNCTIONS_TOKEN'', Getenv ''SCW_PUBLIC_KEY'',
       PemDecode pem, ParsePKCS1PublicKey (Bytes block), ParseWithClaims tok key])"
  using assms by (simp add: authenticate_def call_def)

theorem token_failure_returned_witness:
  "authenticate sampleLib sampleEnv (requestWith ''token-expired'') =
     (Some (ValidationError ''Token is expired''),
      [Getenv ''SCW_PUBLIC'', HeaderGet ''SCW_FUNCTIONS_TOKEN'', Getenv ''SCW_PUBLIC_KEY'',
       PemDecode samplePEM, ParsePKCS1PublicKey ''der-rsa-key'',
       ParseWithClaims ''token-expired'' sampleKey])"
proof -
  have tok: "''token-expired'' \<noteq> []" by simp
  have parse: "jwt_ParseWithClaims sampleLib ''token-expired'' Map.empty (\<lambda>token. (sampleKey, None))
      = (claimsOf (JArray [scope ''ns-1'' ''app-1'']), Some (ValidationError ''Token is expired''))"
    by (simp add: sample_parse sampleTokens_def)
  show ?thesis
    using token_failure_returned [OF sample_not_public sample_token tok sample_public_key
        samplePEM_nonempty sample_block, of sampleKey _ "ValidationError ''Token is expired''"]
      sample_parsed_key parse
    by simp
qed

text \<open>
  C4 as stated fails: there is no single error for a token that does not verify.  An
  expired token, a token signed with another key and a string that is no token give
  three different verdicts, each the library's own error with its text.
\<close>

theorem token_failure_not_one_kind:
  "fst (authenticate sampleLib sampleEnv (requestWith ''token-expired''))
     = Some (ValidationError ''Token is expired'')
   \<and> fst (authenticate sampleLib sampleEnv (requestWith ''token-other-key''))
     = Some (ValidationError ''crypto/rsa: verification error'')
   \<and> fst (authenticate sampleLib sampleEnv (requestWith ''not-a-token''))
     = Some (ValidationError ''token contains an invalid number of segments'')"
  by (simp add: authenticate_def fst_call sample_not_public sample_token sample_public_key
      samplePEM_nonempty sample_block sample_parsed_key sample_parse sampleTokens_def)

section \<open>Extracting the claims\<close>

text \<open>
  C7.  For a verified claim set whose \<open>application_claim\<close> field is absent, or whose
  field decodes to an empty sequence, the verdict is \<open>errorInvalidClaims\<close>: the absent
  field is read as \<open>nil\<close>, marshalled as \<open>null\<close> and decoded without error to a slice of
  length 0, and a slice of length 0 is refused.
\<close>

theorem no_claims_rejected:
  assumes "os_Getenv env ''SCW_PUBLIC'' \<noteq> ''true''"
    and "Header_Get (Header req) ''SCW_FUNCTIONS_TOKEN'' = tok" and "tok \<noteq> []"
    and "os_Getenv env ''SCW_PUBLIC_KEY'' = pem" and "pem \<noteq> []"
    and "pem_Decode L pem = Some block"
    and "x509_ParsePKCS1PublicKey L (Bytes block) = (Some key, None)"
    and "jwt_ParseWithClaims L tok Map.empty (\<lambda>token. (key, None)) = (claims, None)"
    and "claims ''application_claim'' = None
         \<or> json_Unmarshal (equalFold L) (fst (json_Marshal (index claims ''application_claim''))) []
             = ([], None)"
  shows "json_Unmarshal (equalFold L) (fst (json_Marshal (index claims ''application_claim''))) []
           = ([], None)
     \<and> authenticate L env req =
         (Some errorInvalidClaims,
          [Getenv ''SCW_PUBLIC'', HeaderGet ''SCW_FUNCTIONS_TOKEN'', Getenv ''SCW_PUBLIC_KEY'',
           PemDecode pem, ParsePKCS1PublicKey (Bytes block), ParseWithClaims tok key,
           Marshal (index claims ''application_claim''),
           Unmarshal (index claims ''application_claim'')])"
proof -
  from assms(9)
  have empty: "json_Unmarshal (equalFold L) (index claims ''application_claim'') [] = ([], None)"
    by (auto simp: index_def json_Marshal_def)
  with assms(1-8) show ?thesis
    by (simp add: authenticate_def call_def json_Marshal_def)
qed

theorem no_claims_rejected_witness:
  "fst (authenticate sampleLib sampleEnv (requestWith ''token-no-field'')) = Some errorInvalidClaims
   \<and> fst (authenticate sampleLib sampleEnv (requestWith ''token-no-scope'')) = Some errorInvalidClaims"
proof -
  have tok1: "''token-no-field'' \<noteq> []" and tok2: "''token-no-scope'' \<noteq> []" by simp_all
  have parse1: "jwt_ParseWithClaims sampleLib ''token-no-field'' Map.empty (\<lambda>token. (sampleKey, None))
      = ([''exp'' \<mapsto> JNumber ''4102444800''], None)"
    by (simp add: sample_parse sampleTokens_def)
  have parse2: "jwt_ParseWithClaims sampleLib ''token-no-scope'' Map.empty (\<lambda>token. (sampleKey, None))
      = (claimsOf (JArray []), None)"
    by (simp add: sample_parse sampleTokens_def)
  have absent: "[''exp'' \<mapsto> JNumber ''4102444800''] ''application_claim'' = None
      \<or> json_Unmarshal (equalFold sampleLib)
           (fst (json_Marshal (index [''exp'' \<mapsto> JNumber ''4102444800''] ''application_claim''))) []
          = ([], None)"
    by simp
  have empty: "claimsOf (JArray []) ''application_claim'' = None
      \<or> json_Unmarshal (equalFold sampleLib)
           (fst (json_Marshal (index (claimsOf (JArray [])) ''application_claim''))) []
          = ([], None)"
    by (simp add: claimsOf_def index_def json_Marshal_def)
  have key: "x509_ParsePKCS1PublicKey sampleLib
      (Bytes \<lparr>Type = ''RSA PUBLIC KEY'', Bytes = ''der-rsa-key''\<rparr>) = (Some sampleKey, None)"
    by (simp add: sample_parsed_key)
  show ?thesis
    using no_claims_rejected [OF sample_not_public sample_token tok1 sample_public_key
        samplePEM_nonempty sample_block key parse1 absent]
      no_claims_rejected [OF sample_not_public sample_token tok2 sample_public_key
        samplePEM_nonempty sample_block key parse2 empty]
    by simp
qed

text \<open>
  C8 (as the code has it).  When the decoder reports an error on the
  \<open>application_claim\<close> field (a value that is not an array, an element that is not an
  object, a field that is not a string), \<open>authenticate\<close> returns the decoder's error
  itself, a \<open>json.UnmarshalTypeError\<close>, which is not \<open>errorInvalidClaims\<close>.
\<close>

theorem decoder_error_returned:
  assumes "os_Getenv env ''SCW_PUBLIC'' \<noteq> ''true''"
    and "Header_Get (Header req) ''SCW_FUNCTIONS_TOKEN'' = tok" and "tok \<noteq> []"
    and "os_Getenv env ''SCW_PUBLIC_KEY'' = pem" and "pem \<noteq> []"
    and "pem_Decode L pem = Some block"
    and "x509_ParsePKCS1PublicKey L (Bytes block) = (Some key, None)"
    and "jwt_ParseWithClaims L tok Map.empty (\<lambda>token. (key, None)) = (claims, None)"
    and "json_Unmarshal (equalFold L) (fst (json_Marshal (index claims ''application_claim''))) []
           = (cs, Some e)"
  shows "authenticate L env req =
         (Some e,
          [Getenv ''SCW_PUBLIC'', HeaderGet ''SCW_FUNCTIONS_TOKEN'', Getenv ''SCW_PUBLIC_KEY'',
           PemDecode pem, ParsePKCS1PublicKey (Bytes block), ParseWithClaims tok key,
           Marshal (index claims ''application_claim''),
           Unmarshal (index claims ''application_claim'')])
     \<and> (\<exists>kind type. e = UnmarshalTypeError kind type) \<and> e \<noteq> errorInvalidClaims"
proof -
  from assms(9) obtain kind type where e: "e = UnmarshalTypeError kind type"
    using json_Unmarshal_error by blast
  then have "e \<noteq> errorInvalidClaims"
    by (simp add: errorInvalidClaims_def)
  moreover from assms have "authenticate L env req =
         (Some e,
          [Getenv ''SCW_PUBLIC'', HeaderGet ''SCW_FUNCTIONS_TOKEN'', Getenv ''SCW_PUBLIC_KEY'',
           PemDecode pem, ParsePKCS1PublicKey (Bytes block), ParseWithClaims tok key,
           Marshal (index claims ''application_claim''),
           Unmarshal (index claims ''application_claim'')])"
    by (simp add: authenticate_def call_def json_Marshal_def)
  ultimately show ?thesis using e by blast
qed

theorem decoder_error_returned_witness:
  "fst (authenticate sampleLib sampleEnv (requestWith ''token-number-id''))
     = Some (UnmarshalTypeError ''number'' ''string'')"
proof -
  have tok: "''token-number-id'' \<noteq> []" by simp
  have parse: "jwt_ParseWithClaims sampleLib ''token-number-id'' Map.empty (\<lambda>token. (sampleKey, None))
      = (claimsOf (JArray [JObject [(''namespace_id'', JNumber ''1'')]]), None)"
    by (simp add: sample_parse sampleTokens_def)
  have dec: "json_Unmarshal (equalFold sampleLib)
       (fst (json_Marshal (index (claimsOf (JArray [JObject [(''namespace_id'', JNumber ''1'')]]))
          ''application_claim''))) []
     = ([\<lparr>NamespaceID = [], ApplicationID = []\<rparr>], Some (UnmarshalTypeError ''number'' ''string''))"
    by (simp add: claimsOf_def index_def json_Marshal_def fieldFor_def saveError_def)
  have key: "x509_ParsePKCS1PublicKey sampleLib
      (Bytes \<lparr>Type = ''RSA PUBLIC KEY'', Bytes = ''der-rsa-key''\<rparr>) = (Some sampleKey, None)"
    by (simp add: sample_parsed_key)
  show ?thesis
    using decoder_error_returned [OF sample_not_public sample_token tok sample_public_key
        samplePEM_nonempty sample_block key parse dec]
    by simp
qed

text \<open>
  C8 as stated fails: a token whose \<open>application_claim\<close> is a string is refused with the
  decoder's type error, not with \<open>errorInvalidClaims\<close>.
\<close>

theorem wrong_shape_not_invalid_claims:
  "fst (authenticate sampleLib sampleEnv (requestWith ''token-string-scope''))
     = Some (UnmarshalTypeError ''string'' ''[]lambda.ApplicationClaim'')
   \<and> fst (authenticate sampleLib sampleEnv (requestWith ''token-string-scope''))
     \<noteq> Some errorInvalidClaims"
  by (simp add: authenticate_def fst_call sample_not_public sample_token sample_public_key
      samplePEM_nonempty sample_block sample_parsed_key sample_parse sampleTokens_def
      claimsOf_def index_def json_Marshal_def errorInvalidClaims_def)

section \<open>Matching the identity\<close>

text \<open>
  C1.  When the first decoded claim is reached and the runtime's \<open>SCW_APPLICATION_ID\<close>
  and \<open>SCW_NAMESPACE_ID\<close> are both non-empty, \<open>authenticate\<close> accepts the request if and
  only if the claim's \<open>NamespaceID\<close> is the runtime's namespace or its \<open>ApplicationID\<close>
  is the runtime's application.  A matching namespace with another application is
  accepted.
\<close>

theorem match_iff_namespace_or_application:
  assumes "os_Getenv env ''SCW_PUBLIC'' \<noteq> ''true''"
    and "Header_Get (Header req) ''SCW_FUNCTIONS_TOKEN'' = tok" and "tok \<noteq> []"
    and "os_Getenv env ''SCW_PUBLIC_KEY'' = pem" and "pem \<noteq> []"
    and "pem_Decode L pem = Some block"
    and "x509_ParsePKCS1PublicKey L (Bytes block) = (Some key, None)"
    and "jwt_ParseWithClaims L tok Map.empty (\<lambda>token. (key, None)) = (claims, None)"
    and "json_Unmarshal (equalFold L) (fst (json_Marshal (index claims ''application_claim''))) []
           = (claim # others, None)"
    and "os_Getenv env ''SCW_APPLICATION_ID'' \<noteq> []"
    and "os_Getenv env ''SCW_NAMESPACE_ID'' \<noteq> []"
  shows "fst (authenticate L env req) = None
     \<longleftrightarrow> NamespaceID claim = os_Getenv env ''SCW_NAMESPACE_ID''
         \<or> ApplicationID claim = os_Getenv env ''SCW_APPLICATION_ID''"
  using assms by (simp add: authenticate_def fst_call json_Marshal_def)

theorem match_iff_namespace_or_application_witness:
  "fst (authenticate sampleLib sampleEnv (requestWith ''token-ns1-app9'')) = None
   \<and> fst (authenticate sampleLib sampleEnv (requestWith ''token-ns2-app1'')) = None
   \<and> fst (authenticate sampleLib sampleEnv (requestWith ''token-ns2-app9'')) \<noteq> None"
proof -
  have tok: "''token-ns1-app9'' \<noteq> []" "''token-ns2-app1'' \<noteq> []" "''token-ns2-app9'' \<noteq> []"
    by simp_all
  have ids: "os_Getenv sampleEnv ''SCW_APPLICATION_ID'' \<noteq> []"
    "os_Getenv sampleEnv ''SCW_NAMESPACE_ID'' \<noteq> []"
    by (simp_all add: sample_application sample_namespace)
  show ?thesis
    using match_iff_namespace_or_application [OF sample_not_public sample_token tok(1)
        sample_public_key samplePEM_nonempty sample_block sample_x509_block
        sample_parse_scope(1) sample_decode_claims ids]
      match_iff_namespace_or_application [OF sample_not_public sample_token tok(2)
        sample_public_key samplePEM_nonempty sample_block sample_x509_block
        sample_parse_scope(2) sample_decode_claims ids]
      match_iff_namespace_or_application [OF sample_not_public sample_token tok(3)
        sample_public_key samplePEM_nonempty sample_block sample_x509_block
        sample_parse_scope(3) sample_decode_claims ids]
    by (simp add: sample_application sample_namespace)
qed

text \<open>
  C5 (as the code has it).  When the first decoded claim matches neither the runtime's
  namespace nor its application, \<open>authenticate\<close> fails with \<open>errorInvalidClaims\<close>, the
  value it also returns for an empty sequence of claims.
\<close>

theorem mismatch_invalid_claims:
  assumes "os_Getenv env ''SCW_PUBLIC'' \<noteq> ''true''"
    and "Header_Get (Header req) ''SCW_FUNCTIONS_TOKEN'' = tok" and "tok \<noteq> []"
    and "os_Getenv env ''SCW_PUBLIC_KEY'' = pem" and "pem \<noteq> []"
    and "pem_Decode L pem = Some block"
    and "x509_ParsePKCS1PublicKey L (Bytes block) = (Some key, None)"
    and "jwt_ParseWithClaims L tok Map.empty (\<lambda>token. (key, None)) = (claims, None)"
    and "json_Unmarshal (equalFold L) (fst (json_Marshal (index claims ''application_claim''))) []
           = (claim # others, None)"
    and "os_Getenv env ''SCW_APPLICATION_ID'' \<noteq> []"
    and "os_Getenv env ''SCW_NAMESPACE_ID'' \<noteq> []"
    and "NamespaceID claim \<noteq> os_Getenv env ''SCW_NAMESPACE_ID''"
    and "ApplicationID claim \<noteq> os_Getenv env ''SCW_APPLICATION_ID''"
  shows "authenticate L env req =
         (Some errorInvalidClaims,
          [Getenv ''SCW_PUBLIC'', HeaderGet ''SCW_FUNCTIONS_TOKEN'', Getenv ''SCW_PUBLIC_KEY'',
           PemDecode pem, ParsePKCS1PublicKey (Bytes block), ParseWithClaims tok key,
           Marshal (index claims ''application_claim''),
           Unmarshal (index claims ''application_claim''),
           Getenv ''SCW_APPLICATION_ID'', Getenv ''SCW_NAMESPACE_ID''])"
  using assms by (simp add: authenticate_def call_def json_Marshal_def)

theorem mismatch_invalid_claims_witness:
  "fst (authenticate sampleLib sampleEnv (requestWith ''token-ns2-app9'')) = Some errorInvalidClaims"
proof -
  have tok: "''token-ns2-app9'' \<noteq> []" by simp
  have ids: "os_Getenv sampleEnv ''SCW_APPLICATION_ID'' \<noteq> []"
    "os_Getenv sampleEnv ''SCW_NAMESPACE_ID'' \<noteq> []"
    by (simp_all add: sample_application sample_namespace)
  have differ:
    "NamespaceID \<lparr>NamespaceID = ''ns-2'', ApplicationID = ''app-9''\<rparr>
       \<noteq> os_Getenv sampleEnv ''SCW_NAMESPACE_ID''"
    "ApplicationID \<lparr>NamespaceID = ''ns-2'', ApplicationID = ''app-9''\<rparr>
       \<noteq> os_Getenv sampleEnv ''SCW_APPLICATION_ID''"
    by (simp_all add: sample_application sample_namespace)
  show ?thesis
    using mismatch_invalid_claims [OF sample_not_public sample_token tok
        sample_public_key samplePEM_nonempty sample_block sample_x509_block
        sample_parse_scope(3) sample_decode_claims ids differ]
    by simp
qed

text \<open>
  C5 as stated fails: the verdict for a claim that matches nothing is the verdict for a
  token without claims, so the two conditions cannot be told apart from the verdict.
\<close>

theorem mismatch_same_error_as_no_claims:
  "fst (authenticate sampleLib sampleEnv (requestWith ''token-ns2-app9''))
     = fst (authenticate sampleLib sampleEnv (requestWith ''token-no-scope''))
   \<and> fst (authenticate sampleLib sampleEnv (requestWith ''token-ns2-app9'')) = Some errorInvalidClaims"
  by (simp add: authenticate_def fst_call sample_not_public sample_token sample_public_key
      samplePEM_nonempty sample_block sample_parsed_key sample_parse sampleTokens_def
      claimsOf_def index_def json_Marshal_def sample_store_scope
      sample_application sample_namespace)

end
